theory Spec2Isabelle
  imports Main "HOL-Library.AList"
begin

section \<open>Redis-backed session store: the data model\<close>

text \<open>
  The repository holds three near-identical variants of one component, the
  \<^verbatim>\<open>RedisSessionStore\<close> of package \<^verbatim>\<open>storage\<close>:
  \<^item> variant 1 (suffix \<open>_v1\<close>): the store of \<^verbatim>\<open>*mcp.StreamableServerTransport\<close>
    with \<^verbatim>\<open>Exists\<close>, \<^verbatim>\<open>Get\<close>, \<^verbatim>\<open>Set\<close>, \<^verbatim>\<open>Delete\<close>, \<^verbatim>\<open>Range\<close>;
  \<^item> variant 2 (suffix \<open>_v2\<close>): the store of \<^verbatim>\<open>*mcp.SessionState\<close> with
    \<^verbatim>\<open>Load\<close>, \<^verbatim>\<open>Store\<close>, \<^verbatim>\<open>Delete\<close>;
  \<^item> variant 3 (suffix \<open>_v3\<close>): the generic store \<^verbatim>\<open>RedisSessionStore[T]\<close> with
    \<^verbatim>\<open>Get\<close>, \<^verbatim>\<open>Set\<close>, \<^verbatim>\<open>Delete\<close>, \<^verbatim>\<open>All\<close>, \<^verbatim>\<open>Reset\<close>.

  \<^verbatim>\<open>NewRedisSessionStore\<close>, \<^verbatim>\<open>Close\<close>, \<^verbatim>\<open>getKey\<close> and \<^verbatim>\<open>Health\<close> are the same text
  in the three variants (variant 1 adds two \<^verbatim>\<open>log.Printf\<close> lines, which have no
  effect on the state modelled here) and are embedded once, polymorphic in the type
  \<open>'v\<close> of the values of the hot-tier map.
\<close>

subsection \<open>Go error values\<close>

text \<open>
  A Go \<^verbatim>\<open>error\<close> is a value; \<^verbatim>\<open>nil\<close> is \<open>None\<close> of \<open>error option\<close>.
  \<open>Errorf msg\<close> is \<^verbatim>\<open>fmt.Errorf(msg)\<close>, and \<open>Errorf_w msg err\<close> is
  \<^verbatim>\<open>fmt.Errorf(msg + ": %w", err)\<close>, which wraps \<open>err\<close>.
\<close>

datatype error =
    RedisNil
  | ErrNotExist
  | ErrClosed
  | Failure string
  | Errorf string
  | Errorf_w string error

text \<open>
  A \<^verbatim>\<open>context.Context\<close> is represented by the value of its \<^verbatim>\<open>Err()\<close> at the time of
  the call: \<open>None\<close> for \<^verbatim>\<open>context.Background()\<close> and every context that is still
  live, \<open>Some e\<close> for a cancelled or expired one.
\<close>

type_synonym ctx = "error option"

definition Background :: ctx where
  "Background = None"

subsection \<open>The durable tier: the Redis client the store calls\<close>

text \<open>
  The client of \<^verbatim>\<open>github.com/redis/go-redis/v9\<close> is an external library. It is
  represented by the key-value contract the store relies on: a server holding, for
  each key, a value and the time-to-live it was written with; a server that cannot be
  reached (\<open>fault = Some e\<close>) makes every command fail with \<open>e\<close> and change nothing; a
  done context makes the command fail with the context's error; a closed client
  refuses every command.
\<close>

record redis_server =
  entries :: "string \<rightharpoonup> (string \<times> int)"
  fault :: "error option"

record Options =
  opt_Addr :: string
  opt_Password :: string
  opt_DB :: int

record Client =
  options :: Options
  backend :: redis_server
  closed :: bool

definition NewClient :: "(Options \<Rightarrow> redis_server) \<Rightarrow> Options \<Rightarrow> Client" where
  "NewClient net opt = \<lparr>options = opt, backend = net opt, closed = False\<rparr>"

definition cmd_err :: "ctx \<Rightarrow> Client \<Rightarrow> error option" where
  "cmd_err c cl =
     (if closed cl then Some ErrClosed
      else case c of Some e \<Rightarrow> Some e | None \<Rightarrow> fault (backend cl))"

definition client_Ping :: "ctx \<Rightarrow> Client \<Rightarrow> error option" where
  "client_Ping c cl = cmd_err c cl"

definition client_Get :: "ctx \<Rightarrow> Client \<Rightarrow> string \<Rightarrow> error + string" where
  "client_Get c cl key =
     (case cmd_err c cl of
        Some e \<Rightarrow> Inl e
      | None \<Rightarrow> (case entries (backend cl) key of
                   None \<Rightarrow> Inl RedisNil
                 | Some (v, t) \<Rightarrow> Inr v))"

definition client_Set :: "ctx \<Rightarrow> Client \<Rightarrow> string \<Rightarrow> string \<Rightarrow> int \<Rightarrow> error option \<times> Client" where
  "client_Set c cl key v t =
     (case cmd_err c cl of
        Some e \<Rightarrow> (Some e, cl)
      | None \<Rightarrow> (None, cl\<lparr>backend := (backend cl)\<lparr>entries := (entries (backend cl))(key \<mapsto> (v, t))\<rparr>\<rparr>))"

definition client_Del :: "ctx \<Rightarrow> Client \<Rightarrow> string \<Rightarrow> error option \<times> Client" where
  "client_Del c cl key =
     (case cmd_err c cl of
        Some e \<Rightarrow> (Some e, cl)
      | None \<Rightarrow> (None, cl\<lparr>backend := (backend cl)\<lparr>entries := (entries (backend cl))(key := None)\<rparr>\<rparr>))"

definition client_Exists :: "ctx \<Rightarrow> Client \<Rightarrow> string \<Rightarrow> error + int" where
  "client_Exists c cl key =
     (case cmd_err c cl of
        Some e \<Rightarrow> Inl e
      | None \<Rightarrow> (case entries (backend cl) key of None \<Rightarrow> Inr 0 | Some p \<Rightarrow> Inr 1))"

definition client_Close :: "Client \<Rightarrow> error option \<times> Client" where
  "client_Close cl = (if closed cl then (Some ErrClosed, cl) else (None, cl\<lparr>closed := True\<rparr>))"

subsection \<open>The session owner: the MCP server\<close>

text \<open>
  \<^verbatim>\<open>mcp.Server\<close> and \<^verbatim>\<open>mcp.StreamableServerTransport\<close> belong to the SDK. The store
  only creates a transport for a session identifier, connects it and (variant 1)
  initialises the resulting server session. The server is represented by the list of
  the sessions connected to it, each with the flag "initialised", and by the error
  with which it refuses a connection, if it does.
\<close>

datatype transport = StreamableServerTransport string

record Server =
  refuse :: "error option"
  sessions :: "(string \<times> bool) list"

definition NewStreamableServerTransport :: "string \<Rightarrow> transport" where
  "NewStreamableServerTransport sessionID = StreamableServerTransport sessionID"

definition Connect :: "Server \<Rightarrow> ctx \<Rightarrow> transport \<Rightarrow> (error + string) \<times> Server" where
  "Connect srv c t =
     (case t of StreamableServerTransport sid \<Rightarrow>
        (case c of
           Some e \<Rightarrow> (Inl e, srv)
         | None \<Rightarrow> (case refuse srv of
                      Some e \<Rightarrow> (Inl e, srv)
                    | None \<Rightarrow> (Inr sid, srv\<lparr>sessions := sessions srv @ [(sid, False)]\<rparr>))))"

definition Initialize :: "Server \<Rightarrow> string \<Rightarrow> Server" where
  "Initialize srv ss = srv\<lparr>sessions := map (\<lambda>(i, b). if i = ss then (i, True) else (i, b)) (sessions srv)\<rparr>"

subsection \<open>The store\<close>

text \<open>
  \<^verbatim>\<open>sync.RWMutex\<close>: the number of holders in shared mode and whether it is held in
  exclusive mode. The operations are embedded sequentially, one call at a time, so a
  lock call never blocks; every \<^verbatim>\<open>RUnlock\<close> of the source follows an \<^verbatim>\<open>RLock\<close>, so
  the decrement is never applied to zero.
\<close>

record RWMutex =
  readers :: nat
  writer :: bool

datatype access = MapRead | MapWrite

text \<open>
  The struct \<^verbatim>\<open>RedisSessionStore\<close>. The Go map \<^verbatim>\<open>activeSessions\<close> is an association
  list, read through \<open>map_of\<close>. \<open>accessLog\<close> is a history variable that is not in the
  source: every access to \<^verbatim>\<open>activeSessions\<close> appends its kind and the state of
  \<^verbatim>\<open>activeSessionMu\<close> at that moment, so that the locking discipline of an operation
  can be read off the state it returns.
\<close>

record 'v RedisSessionStore =
  client :: Client
  prefix :: string
  ttl :: int
  server :: "Server option"
  activeSessions :: "(string \<times> 'v) list"
  activeSessionMu :: RWMutex
  accessLog :: "(access \<times> RWMutex) list"

record RedisSessionStoreConfig =
  Addr :: string
  Password :: string
  DB :: int
  Prefix :: string
  TTL :: int
  Server :: "Server option"

text \<open>\<^verbatim>\<open>time.Hour\<close>, a \<^verbatim>\<open>time.Duration\<close> in nanoseconds.\<close>

definition Hour :: int where
  "Hour = 60 * (60 * (1000 * (1000 * (1000 * 1))))"

definition RLock :: "'v RedisSessionStore \<Rightarrow> 'v RedisSessionStore" where
  "RLock r = r\<lparr>activeSessionMu := (activeSessionMu r)\<lparr>readers := Suc (readers (activeSessionMu r))\<rparr>\<rparr>"

definition RUnlock :: "'v RedisSessionStore \<Rightarrow> 'v RedisSessionStore" where
  "RUnlock r = r\<lparr>activeSessionMu := (activeSessionMu r)\<lparr>readers := readers (activeSessionMu r) - 1\<rparr>\<rparr>"

definition Lock :: "'v RedisSessionStore \<Rightarrow> 'v RedisSessionStore" where
  "Lock r = r\<lparr>activeSessionMu := (activeSessionMu r)\<lparr>writer := True\<rparr>\<rparr>"

definition Unlock :: "'v RedisSessionStore \<Rightarrow> 'v RedisSessionStore" where
  "Unlock r = r\<lparr>activeSessionMu := (activeSessionMu r)\<lparr>writer := False\<rparr>\<rparr>"

definition logged :: "access \<Rightarrow> 'v RedisSessionStore \<Rightarrow> 'v RedisSessionStore" where
  "logged a r = r\<lparr>accessLog := accessLog r @ [(a, activeSessionMu r)]\<rparr>"

text \<open>The four ways the source touches the map:
  \<^verbatim>\<open>v, ok := m[k]\<close>, \<^verbatim>\<open>m[k] = v\<close>, \<^verbatim>\<open>delete(m, k)\<close>, \<^verbatim>\<open>for k, v := range m\<close>,
  and the replacement \<^verbatim>\<open>m = make(map[string]T)\<close>.\<close>

definition map_index :: "'v RedisSessionStore \<Rightarrow> string \<Rightarrow> 'v option \<times> 'v RedisSessionStore" where
  "map_index r k = (map_of (activeSessions r) k, logged MapRead r)"

definition map_assign :: "'v RedisSessionStore \<Rightarrow> string \<Rightarrow> 'v \<Rightarrow> 'v RedisSessionStore" where
  "map_assign r k v = (logged MapWrite r)\<lparr>activeSessions := AList.update k v (activeSessions r)\<rparr>"

definition map_delete :: "'v RedisSessionStore \<Rightarrow> string \<Rightarrow> 'v RedisSessionStore" where
  "map_delete r k = (logged MapWrite r)\<lparr>activeSessions := AList.delete k (activeSessions r)\<rparr>"

definition map_range :: "'v RedisSessionStore \<Rightarrow> (string \<times> 'v) list \<times> 'v RedisSessionStore" where
  "map_range r = (activeSessions r, logged MapRead r)"

definition map_make :: "'v RedisSessionStore \<Rightarrow> 'v RedisSessionStore" where
  "map_make r = (logged MapWrite r)\<lparr>activeSessions := []\<rparr>"

definition getKey :: "'v RedisSessionStore \<Rightarrow> string \<Rightarrow> string" where
  "getKey r sessionID = prefix r @ sessionID"

section \<open>Construction\<close>

text \<open>
  \<^verbatim>\<open>NewRedisSessionStore(config)\<close> returns the pair \<^verbatim>\<open>(*RedisSessionStore, error)\<close>.
  \<open>net\<close> is the environment: the Redis server that a client with the given options
  talks to. The probe runs under a context with a five-second timeout; a probe that
  does not answer in time is a server with a fault.
\<close>

definition NewRedisSessionStore ::
  "(Options \<Rightarrow> redis_server) \<Rightarrow> RedisSessionStoreConfig \<Rightarrow> 'v RedisSessionStore option \<times> error option" where
  "NewRedisSessionStore net config0 =
     (let config1 = (if Addr config0 = [] then config0\<lparr>Addr := ''localhost:6379''\<rparr> else config0);
          config2 = (if Prefix config1 = [] then config1\<lparr>Prefix := ''mcp:session:''\<rparr> else config1);
          config = (if TTL config2 = 0 then config2\<lparr>TTL := Hour\<rparr> else config2);
          cl = NewClient net \<lparr>opt_Addr = Addr config, opt_Password = Password config, opt_DB = DB config\<rparr>
      in case client_Ping Background cl of
           Some err \<Rightarrow> (None, Some (Errorf_w ''failed to connect to Redis'' err))
         | None \<Rightarrow>
             (case Server config of
                None \<Rightarrow> (None, Some (Errorf ''MCP server reference is required''))
              | Some srv \<Rightarrow>
                  (Some \<lparr>client = cl, prefix = Prefix config, ttl = TTL config,
                         server = Some srv, activeSessions = [],
                         activeSessionMu = \<lparr>readers = 0, writer = False\<rparr>,
                         accessLog = []\<rparr>, None)))"

definition Close :: "'v RedisSessionStore \<Rightarrow> error option \<times> 'v RedisSessionStore" where
  "Close r = (case client_Close (client r) of (err, cl) \<Rightarrow> (err, r\<lparr>client := cl\<rparr>))"

definition Health :: "'v RedisSessionStore \<Rightarrow> ctx \<Rightarrow> error option \<times> 'v RedisSessionStore" where
  "Health r c = (client_Ping c (client r), r)"

section \<open>Variant 2: the store of session states\<close>

text \<open>
  \<^verbatim>\<open>mcp.SessionState\<close> is a type of the SDK; it is the type variable \<open>'s\<close>, and a
  \<^verbatim>\<open>*mcp.SessionState\<close>, which may be \<^verbatim>\<open>nil\<close>, is an \<open>'s option\<close>.
  \<^verbatim>\<open>json.Marshal\<close> and \<^verbatim>\<open>json.Unmarshal\<close> at this type are the parameters
  \<open>marshal\<close> and \<open>unmarshal\<close>. Every operation returns what the Go method returns,
  paired with the store after the call.
\<close>

definition Load_v2 ::
  "(string \<Rightarrow> error + 's) \<Rightarrow> 's option RedisSessionStore \<Rightarrow> ctx \<Rightarrow> string
     \<Rightarrow> ('s option \<times> error option) \<times> 's option RedisSessionStore" where
  "Load_v2 unmarshal r c sessionID =
     (let r1 = RLock r in
      case map_index r1 sessionID of
        (Some session, r2) \<Rightarrow> ((session, None), RUnlock r2)
      | (None, r2) \<Rightarrow>
          (let r3 = RUnlock r2;
               key = getKey r3 sessionID
           in case client_Get c (client r3) key of
                Inl err \<Rightarrow>
                  if err = RedisNil then ((None, Some ErrNotExist), r3)
                  else ((None, Some (Errorf_w ''failed to get session from Redis'' err)), r3)
              | Inr data \<Rightarrow>
                  (case unmarshal data of
                     Inl err \<Rightarrow> ((None, Some (Errorf_w ''failed to unmarshal session data'' err)), r3)
                   | Inr sessionState \<Rightarrow>
                       (let r4 = Lock r3;
                            r5 = map_assign r4 sessionID (Some sessionState)
                        in ((Some sessionState, None), Unlock r5)))))"

definition Store_v2 ::
  "('s option \<Rightarrow> error + string) \<Rightarrow> 's option RedisSessionStore \<Rightarrow> ctx \<Rightarrow> string \<Rightarrow> 's option
     \<Rightarrow> error option \<times> 's option RedisSessionStore" where
  "Store_v2 marshal r c sessionID sessionState =
     (let key = getKey r sessionID
      in case marshal sessionState of
           Inl err \<Rightarrow> (Some (Errorf_w ''failed to marshal session data'' err), r)
         | Inr data \<Rightarrow>
             (case client_Set c (client r) key data (ttl r) of
                (Some err, cl) \<Rightarrow> (Some (Errorf_w ''failed to set session in Redis'' err), r\<lparr>client := cl\<rparr>)
              | (None, cl) \<Rightarrow>
                  (let r1 = Lock (r\<lparr>client := cl\<rparr>);
                       r2 = map_assign r1 sessionID sessionState
                   in (None, Unlock r2))))"

definition Delete_v2 ::
  "'v RedisSessionStore \<Rightarrow> ctx \<Rightarrow> string \<Rightarrow> error option \<times> 'v RedisSessionStore" where
  "Delete_v2 r c sessionID =
     (let key = getKey r sessionID
      in case client_Del c (client r) key of
           (Some err, cl) \<Rightarrow> (Some (Errorf_w ''failed to delete session from Redis'' err), r\<lparr>client := cl\<rparr>)
         | (None, cl) \<Rightarrow>
             (let r1 = Lock (r\<lparr>client := cl\<rparr>);
                  r2 = map_delete r1 sessionID
              in (None, Unlock r2)))"

section \<open>Variant 1: the store of transports\<close>

text \<open>
  The values of the map are \<^verbatim>\<open>*mcp.StreamableServerTransport\<close>, here
  \<open>transport option\<close>. The record written to Redis is \<^verbatim>\<open>sessionData\<close>, which carries
  the session identifier only.
\<close>

record sessionData =
  SessionID :: string

definition Exists_v1 ::
  "'v RedisSessionStore \<Rightarrow> string \<Rightarrow> (bool \<times> error option) \<times> 'v RedisSessionStore" where
  "Exists_v1 r sessionID =
     (case map_index r sessionID of
        (Some t, r1) \<Rightarrow> ((True, None), r1)
      | (None, r1) \<Rightarrow>
          (let c = Background;
               key = getKey r1 sessionID
           in case client_Exists c (client r1) key of
                Inl err \<Rightarrow> ((False, Some (Errorf_w ''failed to check session existence'' err)), r1)
              | Inr n \<Rightarrow> ((0 < n, None), r1)))"

definition Get_v1 ::
  "(string \<Rightarrow> error + sessionData) \<Rightarrow> transport option RedisSessionStore \<Rightarrow> ctx \<Rightarrow> string
     \<Rightarrow> (transport option \<times> error option) \<times> transport option RedisSessionStore" where
  "Get_v1 unmarshal r c sessionID =
     (let r1 = RLock r in
      case map_index r1 sessionID of
        (Some t, r2) \<Rightarrow> ((t, None), RUnlock r2)
      | (None, r2) \<Rightarrow>
          (let r3 = RUnlock r2;
               key = getKey r3 sessionID
           in case client_Get c (client r3) key of
                Inl err \<Rightarrow>
                  if err = RedisNil then ((None, None), r3)
                  else ((None, Some (Errorf_w ''failed to get session from Redis'' err)), r3)
              | Inr data \<Rightarrow>
                  (case unmarshal data of
                     Inl err \<Rightarrow> ((None, Some (Errorf_w ''failed to unmarshal session data'' err)), r3)
                   | Inr sd \<Rightarrow>
                       (let t = NewStreamableServerTransport (SessionID sd)
                        in case server r3 of
                             None \<Rightarrow> ((None, Some (Errorf ''MCP server reference is nil - this should not happen'')), r3)
                           | Some srv \<Rightarrow>
                               (case Connect srv c t of
                                  (Inl err, srv1) \<Rightarrow>
                                    ((None, Some (Errorf_w ''failed to connect session to server'' err)),
                                     r3\<lparr>server := Some srv1\<rparr>)
                                | (Inr serverSession, srv1) \<Rightarrow>
                                    (let srv2 = Initialize srv1 serverSession;
                                         r4 = Lock (r3\<lparr>server := Some srv2\<rparr>);
                                         r5 = map_assign r4 sessionID (Some t)
                                     in ((Some t, None), Unlock r5)))))))"

definition Set_v1 ::
  "(sessionData \<Rightarrow> error + string) \<Rightarrow> 'v RedisSessionStore \<Rightarrow> string \<Rightarrow> 'v
     \<Rightarrow> error option \<times> 'v RedisSessionStore" where
  "Set_v1 marshal r sessionID session =
     (let c = Background;
          key = getKey r sessionID;
          sd = \<lparr>SessionID = sessionID\<rparr>
      in case marshal sd of
           Inl err \<Rightarrow> (Some (Errorf_w ''failed to marshal session data'' err), r)
         | Inr data \<Rightarrow>
             (case client_Set c (client r) key data (ttl r) of
                (Some err, cl) \<Rightarrow> (Some (Errorf_w ''failed to set session in Redis'' err), r\<lparr>client := cl\<rparr>)
              | (None, cl) \<Rightarrow>
                  (let r1 = Lock (r\<lparr>client := cl\<rparr>);
                       r2 = map_assign r1 sessionID session
                   in (None, Unlock r2))))"

definition Delete_v1 ::
  "'v RedisSessionStore \<Rightarrow> string \<Rightarrow> error option \<times> 'v RedisSessionStore" where
  "Delete_v1 r sessionID =
     (let c = Background;
          key = getKey r sessionID
      in case client_Del c (client r) key of
           (Some err, cl) \<Rightarrow> (Some (Errorf_w ''failed to delete session from Redis'' err), r\<lparr>client := cl\<rparr>)
         | (None, cl) \<Rightarrow>
             (let r1 = Lock (r\<lparr>client := cl\<rparr>);
                  r2 = map_delete r1 sessionID
              in (None, Unlock r2)))"

text \<open>
  \<^verbatim>\<open>Range(f)\<close> calls \<open>f\<close> on every entry while the lock is held in shared mode. The
  callback acts on a state \<open>'c\<close> of the caller; the order of a Go map iteration is
  unspecified, the order of the association list is one of the possible orders.
\<close>

definition Range_v1 ::
  "'v RedisSessionStore \<Rightarrow> (string \<Rightarrow> 'v \<Rightarrow> 'c \<Rightarrow> 'c) \<Rightarrow> 'c \<Rightarrow> 'c \<times> 'v RedisSessionStore" where
  "Range_v1 r f s =
     (let r1 = RLock r
      in case map_range r1 of
           (kvs, r2) \<Rightarrow> (fold (\<lambda>(sessionID, session). f sessionID session) kvs s, RUnlock r2))"

section \<open>Variant 3: the generic store\<close>

text \<open>
  \<^verbatim>\<open>RedisSessionStore[T]\<close>: \<open>'v\<close> is the type parameter \<^verbatim>\<open>T\<close>, \<open>zero\<close> its zero value
  and \<open>assertT\<close> the type assertion \<^verbatim>\<open>any(transport).(T)\<close>, \<open>None\<close> when it fails.
\<close>

definition Get_v3 ::
  "'v \<Rightarrow> (transport \<Rightarrow> 'v option) \<Rightarrow> (string \<Rightarrow> error + sessionData) \<Rightarrow> 'v RedisSessionStore \<Rightarrow> string
     \<Rightarrow> ('v \<times> error option) \<times> 'v RedisSessionStore" where
  "Get_v3 zero assertT unmarshal r sessionID =
     (let r1 = RLock r in
      case map_index r1 sessionID of
        (Some t, r2) \<Rightarrow> ((t, None), RUnlock r2)
      | (None, r2) \<Rightarrow>
          (let r3 = RUnlock r2;
               key = getKey r3 sessionID
           in case client_Get Background (client r3) key of
                Inl err \<Rightarrow>
                  if err = RedisNil then ((zero, None), r3)
                  else ((zero, Some (Errorf_w ''failed to get session from Redis'' err)), r3)
              | Inr data \<Rightarrow>
                  (case unmarshal data of
                     Inl err \<Rightarrow> ((zero, Some (Errorf_w ''failed to unmarshal session data'' err)), r3)
                   | Inr sd \<Rightarrow>
                       (let t = NewStreamableServerTransport (SessionID sd)
                        in case assertT t of
                             None \<Rightarrow> ((zero, Some (Errorf ''failed to cast transport to expected type'')), r3)
                           | Some result \<Rightarrow>
                               (case server r3 of
                                  None \<Rightarrow> ((zero, Some (Errorf ''MCP server reference is nil - this should not happen'')), r3)
                                | Some srv \<Rightarrow>
                                    (case Connect srv Background t of
                                       (Inl err, srv1) \<Rightarrow>
                                         ((zero, Some (Errorf_w ''failed to connect session to server'' err)),
                                          r3\<lparr>server := Some srv1\<rparr>)
                                     | (Inr serverSession, srv1) \<Rightarrow>
                                         (let r4 = Lock (r3\<lparr>server := Some srv1\<rparr>);
                                              r5 = map_assign r4 sessionID result
                                          in ((result, None), Unlock r5))))))))"

definition Set_v3 ::
  "(sessionData \<Rightarrow> error + string) \<Rightarrow> 'v RedisSessionStore \<Rightarrow> string \<Rightarrow> 'v
     \<Rightarrow> error option \<times> 'v RedisSessionStore" where
  "Set_v3 marshal r sessionID t =
     (let c = Background;
          key = getKey r sessionID;
          sd = \<lparr>SessionID = sessionID\<rparr>
      in case marshal sd of
           Inl err \<Rightarrow> (Some (Errorf_w ''failed to marshal session data'' err), r)
         | Inr data \<Rightarrow>
             (case client_Set c (client r) key data (ttl r) of
                (Some err, cl) \<Rightarrow> (Some (Errorf_w ''failed to set session in Redis'' err), r\<lparr>client := cl\<rparr>)
              | (None, cl) \<Rightarrow>
                  (let r1 = Lock (r\<lparr>client := cl\<rparr>);
                       r2 = map_assign r1 sessionID t
                   in (None, Unlock r2))))"

definition Delete_v3 ::
  "'v RedisSessionStore \<Rightarrow> string \<Rightarrow> error option \<times> 'v RedisSessionStore" where
  "Delete_v3 r sessionID =
     (let c = Background;
          key = getKey r sessionID
      in case client_Del c (client r) key of
           (Some err, cl) \<Rightarrow> (Some (Errorf_w ''failed to delete session from Redis'' err), r\<lparr>client := cl\<rparr>)
         | (None, cl) \<Rightarrow>
             (let r1 = Lock (r\<lparr>client := cl\<rparr>);
                  r2 = map_delete r1 sessionID
              in (None, Unlock r2)))"

text \<open>
  \<^verbatim>\<open>All()\<close> returns an iterator and \<^verbatim>\<open>nil\<close> without touching the store. The
  iterator, when the caller runs it with a \<^verbatim>\<open>yield\<close> function, takes the lock in
  shared mode and yields the sessions until \<^verbatim>\<open>yield\<close> returns false.
\<close>

fun yield_loop :: "('v \<Rightarrow> 'c \<Rightarrow> bool \<times> 'c) \<Rightarrow> (string \<times> 'v) list \<Rightarrow> 'c \<Rightarrow> 'c" where
  "yield_loop yield [] s = s"
| "yield_loop yield ((sessionID, session) # kvs) s =
     (case yield session s of
        (False, s1) \<Rightarrow> s1
      | (True, s1) \<Rightarrow> yield_loop yield kvs s1)"

definition All_seq_v3 ::
  "'v RedisSessionStore \<Rightarrow> ('v \<Rightarrow> 'c \<Rightarrow> bool \<times> 'c) \<Rightarrow> 'c \<Rightarrow> 'c \<times> 'v RedisSessionStore" where
  "All_seq_v3 r yield s =
     (let r1 = RLock r
      in case map_range r1 of
           (kvs, r2) \<Rightarrow> (yield_loop yield kvs s, RUnlock r2))"

type_synonym ('v, 'c) seq =
  "'v RedisSessionStore \<Rightarrow> ('v \<Rightarrow> 'c \<Rightarrow> bool \<times> 'c) \<Rightarrow> 'c \<Rightarrow> 'c \<times> 'v RedisSessionStore"

definition All_v3 :: "'v RedisSessionStore \<Rightarrow> (('v, 'c) seq \<times> error option) \<times> 'v RedisSessionStore" where
  "All_v3 r = ((All_seq_v3, None), r)"

definition Reset_v3 :: "'v RedisSessionStore \<Rightarrow> error option \<times> 'v RedisSessionStore" where
  "Reset_v3 r =
     (let r1 = Lock r;
          r2 = map_make r1
      in (None, Unlock r2))"

section \<open>Sequences of calls\<close>

text \<open>
  A caller of the store issues calls one after the other. Each variant has a datatype
  of its public calls with their arguments, and a step function that performs one call
  and keeps the store it leaves behind.
\<close>

datatype 'c call_v1 =
    Exists1 string
  | Get1 ctx string
  | Set1 string "transport option"
  | Delete1 string
  | Range1 "string \<Rightarrow> transport option \<Rightarrow> 'c \<Rightarrow> 'c" 'c
  | Close1
  | Health1 ctx

datatype 's call_v2 =
    Load2 ctx string
  | Store2 ctx string "'s option"
  | Delete2 ctx string
  | Close2
  | Health2 ctx

datatype ('v, 'c) call_v3 =
    Get3 string
  | Set3 string 'v
  | Delete3 string
  | All3
  | Seq3 "'v \<Rightarrow> 'c \<Rightarrow> bool \<times> 'c" 'c
  | Reset3
  | Close3
  | Health3 ctx

fun step_v1 ::
  "(sessionData \<Rightarrow> error + string) \<Rightarrow> (string \<Rightarrow> error + sessionData) \<Rightarrow>
   transport option RedisSessionStore \<Rightarrow> 'c call_v1 \<Rightarrow> transport option RedisSessionStore" where
  "step_v1 marshal unmarshal r (Exists1 x) = snd (Exists_v1 r x)"
| "step_v1 marshal unmarshal r (Get1 c x) = snd (Get_v1 unmarshal r c x)"
| "step_v1 marshal unmarshal r (Set1 x t) = snd (Set_v1 marshal r x t)"
| "step_v1 marshal unmarshal r (Delete1 x) = snd (Delete_v1 r x)"
| "step_v1 marshal unmarshal r (Range1 f s) = snd (Range_v1 r f s)"
| "step_v1 marshal unmarshal r Close1 = snd (Close r)"
| "step_v1 marshal unmarshal r (Health1 c) = snd (Health r c)"

fun step_v2 ::
  "('s option \<Rightarrow> error + string) \<Rightarrow> (string \<Rightarrow> error + 's) \<Rightarrow>
   's option RedisSessionStore \<Rightarrow> 's call_v2 \<Rightarrow> 's option RedisSessionStore" where
  "step_v2 marshal unmarshal r (Load2 c x) = snd (Load_v2 unmarshal r c x)"
| "step_v2 marshal unmarshal r (Store2 c x s) = snd (Store_v2 marshal r c x s)"
| "step_v2 marshal unmarshal r (Delete2 c x) = snd (Delete_v2 r c x)"
| "step_v2 marshal unmarshal r Close2 = snd (Close r)"
| "step_v2 marshal unmarshal r (Health2 c) = snd (Health r c)"

fun step_v3 ::
  "'v \<Rightarrow> (transport \<Rightarrow> 'v option) \<Rightarrow> (sessionData \<Rightarrow> error + string) \<Rightarrow>
   (string \<Rightarrow> error + sessionData) \<Rightarrow>
   'v RedisSessionStore \<Rightarrow> ('v, 'c) call_v3 \<Rightarrow> 'v RedisSessionStore" where
  "step_v3 zero assertT marshal unmarshal r (Get3 x) = snd (Get_v3 zero assertT unmarshal r x)"
| "step_v3 zero assertT marshal unmarshal r (Set3 x t) = snd (Set_v3 marshal r x t)"
| "step_v3 zero assertT marshal unmarshal r (Delete3 x) = snd (Delete_v3 r x)"
| "step_v3 zero assertT marshal unmarshal r All3 =
     snd (All_v3 r :: (('v, 'c) seq \<times> error option) \<times> 'v RedisSessionStore)"
| "step_v3 zero assertT marshal unmarshal r (Seq3 yield s) = snd (All_seq_v3 r yield s)"
| "step_v3 zero assertT marshal unmarshal r Reset3 = snd (Reset_v3 r)"
| "step_v3 zero assertT marshal unmarshal r Close3 = snd (Close r)"
| "step_v3 zero assertT marshal unmarshal r (Health3 c) = snd (Health r c)"

text \<open>\<open>hot r x\<close>: the hot tier of \<open>r\<close> has an entry for the identifier \<open>x\<close>.\<close>

definition hot :: "'v RedisSessionStore \<Rightarrow> string \<Rightarrow> bool" where
  "hot r x = (map_of (activeSessions r) x \<noteq> None)"

section \<open>The locking discipline, read off the access log\<close>

text \<open>
  An access is covered when a read of the map was made with the mutex held in shared
  mode and a write with the mutex held in exclusive mode. A call that takes \<open>r\<close> to
  \<open>r'\<close> is disciplined when every access it added to the log is covered and it leaves
  the mutex as it found it.
\<close>

definition free :: RWMutex where
  "free = \<lparr>readers = 0, writer = False\<rparr>"

definition lock_held :: "access \<times> RWMutex \<Rightarrow> bool" where
  "lock_held e = (case e of (MapRead, mu) \<Rightarrow> 0 < readers mu | (MapWrite, mu) \<Rightarrow> writer mu)"

definition disciplined :: "'v RedisSessionStore \<Rightarrow> 'v RedisSessionStore \<Rightarrow> bool" where
  "disciplined r r' =
     (list_all lock_held (drop (length (accessLog r)) (accessLog r')) \<and>
      take (length (accessLog r)) (accessLog r') = accessLog r \<and>
      activeSessionMu r' = activeSessionMu r)"

section \<open>Example environments, configurations and stores\<close>

text \<open>\<open>dialled config\<close>: the options of the client that the constructor probes, that is
  the configuration's connection fields with the default address filled in.\<close>

definition dialled :: "RedisSessionStoreConfig \<Rightarrow> Options" where
  "dialled config =
     \<lparr>opt_Addr = (if Addr config = [] then ''localhost:6379'' else Addr config),
      opt_Password = Password config, opt_DB = DB config\<rparr>"

definition net_up :: "Options \<Rightarrow> redis_server" where
  "net_up opt = \<lparr>entries = Map.empty, fault = None\<rparr>"

definition net_down :: "Options \<Rightarrow> redis_server" where
  "net_down opt = \<lparr>entries = Map.empty, fault = Some (Failure ''dial tcp: connection refused'')\<rparr>"

definition idle_server :: Server where
  "idle_server = \<lparr>refuse = None, sessions = []\<rparr>"

definition config_zero :: RedisSessionStoreConfig where
  "config_zero = \<lparr>Addr = [], Password = [], DB = 0, Prefix = [], TTL = 0, Server = None\<rparr>"

definition config_custom :: RedisSessionStoreConfig where
  "config_custom = \<lparr>Addr = ''redis:6380'', Password = ''pw'', DB = 2, Prefix = ''s:'', TTL = 5,
                     Server = Some idle_server\<rparr>"

definition empty_store :: "string option RedisSessionStore" where
  "empty_store =
     \<lparr>client = \<lparr>options = \<lparr>opt_Addr = ''localhost:6379'', opt_Password = [], opt_DB = 0\<rparr>,
                 backend = \<lparr>entries = Map.empty, fault = None\<rparr>,
                 closed = False\<rparr>,
      prefix = ''mcp:session:'', ttl = Hour, server = Some idle_server,
      activeSessions = [],
      activeSessionMu = \<lparr>readers = 0, writer = False\<rparr>, accessLog = []\<rparr>"

definition empty_store_v1 :: "transport option RedisSessionStore" where
  "empty_store_v1 =
     \<lparr>client = \<lparr>options = \<lparr>opt_Addr = ''localhost:6379'', opt_Password = [], opt_DB = 0\<rparr>,
                 backend = \<lparr>entries = Map.empty, fault = None\<rparr>,
                 closed = False\<rparr>,
      prefix = ''mcp:session:'', ttl = Hour, server = Some idle_server,
      activeSessions = [],
      activeSessionMu = \<lparr>readers = 0, writer = False\<rparr>, accessLog = []\<rparr>"

definition custom_store :: "string option RedisSessionStore" where
  "custom_store =
     \<lparr>client = \<lparr>options = \<lparr>opt_Addr = ''redis:6380'', opt_Password = ''pw'', opt_DB = 2\<rparr>,
                 backend = \<lparr>entries = Map.empty, fault = None\<rparr>,
                 closed = False\<rparr>,
      prefix = ''s:'', ttl = 5, server = Some idle_server,
      activeSessions = [],
      activeSessionMu = \<lparr>readers = 0, writer = False\<rparr>, accessLog = []\<rparr>"

text \<open>A store that holds the session \<open>''abc''\<close> in both tiers, with the Redis server
  answering (\<open>reachable_store\<close>) and not answering (\<open>unreachable_store\<close>).\<close>

definition reachable_store :: "string option RedisSessionStore" where
  "reachable_store =
     \<lparr>client = \<lparr>options = \<lparr>opt_Addr = ''localhost:6379'', opt_Password = [], opt_DB = 0\<rparr>,
                 backend = \<lparr>entries = [''mcp:session:abc'' \<mapsto> (''state'', Hour)],
                            fault = None\<rparr>,
                 closed = False\<rparr>,
      prefix = ''mcp:session:'', ttl = Hour, server = Some idle_server,
      activeSessions = [(''abc'', Some ''state'')],
      activeSessionMu = \<lparr>readers = 0, writer = False\<rparr>, accessLog = []\<rparr>"

definition unreachable_store :: "string option RedisSessionStore" where
  "unreachable_store =
     \<lparr>client = \<lparr>options = \<lparr>opt_Addr = ''localhost:6379'', opt_Password = [], opt_DB = 0\<rparr>,
                 backend = \<lparr>entries = [''mcp:session:abc'' \<mapsto> (''state'', Hour)],
                            fault = Some (Failure ''i/o timeout'')\<rparr>,
                 closed = False\<rparr>,
      prefix = ''mcp:session:'', ttl = Hour, server = Some idle_server,
      activeSessions = [(''abc'', Some ''state'')],
      activeSessionMu = \<lparr>readers = 0, writer = False\<rparr>, accessLog = []\<rparr>"

definition reachable_store_v1 :: "transport option RedisSessionStore" where
  "reachable_store_v1 =
     \<lparr>client = \<lparr>options = \<lparr>opt_Addr = ''localhost:6379'', opt_Password = [], opt_DB = 0\<rparr>,
                 backend = \<lparr>entries = [''mcp:session:abc'' \<mapsto> (''abc'', Hour)],
                            fault = None\<rparr>,
                 closed = False\<rparr>,
      prefix = ''mcp:session:'', ttl = Hour, server = Some idle_server,
      activeSessions = [(''abc'', Some (StreamableServerTransport ''abc''))],
      activeSessionMu = \<lparr>readers = 0, writer = False\<rparr>, accessLog = []\<rparr>"

text \<open>Stand-ins for the JSON codec: one that encodes, one that refuses, and decoders.\<close>

definition json_state :: "string option \<Rightarrow> error + string" where
  "json_state s = (case s of None \<Rightarrow> Inr ''null'' | Some v \<Rightarrow> Inr v)"

definition json_reject :: "string option \<Rightarrow> error + string" where
  "json_reject s = Inl (Failure ''json: unsupported value'')"

definition parse_state :: "string \<Rightarrow> error + string" where
  "parse_state d = (if d = [] then Inl (Failure ''unexpected end of JSON input'') else Inr d)"

definition json_data :: "sessionData \<Rightarrow> error + string" where
  "json_data sd = Inr (SessionID sd)"

definition parse_data :: "string \<Rightarrow> error + sessionData" where
  "parse_data d =
     (if d = [] then Inl (Failure ''unexpected end of JSON input'') else Inr \<lparr>SessionID = d\<rparr>)"

section \<open>Basic facts about the operations\<close>

lemmas client_defs = cmd_err_def client_Ping_def client_Get_def client_Set_def client_Del_def
  client_Exists_def client_Close_def Background_def

lemmas map_defs = RLock_def RUnlock_def Lock_def Unlock_def logged_def map_index_def
  map_assign_def map_delete_def map_range_def map_make_def getKey_def

subsection \<open>Construction\<close>

lemma NewRedisSessionStore_probe_fails:
  assumes "fault (net (dialled config)) = Some e"
  shows "NewRedisSessionStore net config = (None, Some (Errorf_w ''failed to connect to Redis'' e))"
  using assms
  by (cases "Addr config = []")
     (simp_all add: dialled_def NewRedisSessionStore_def Let_def NewClient_def client_Ping_def
        cmd_err_def Background_def)

lemma NewRedisSessionStore_probe_ok:
  assumes "fault (net (dialled config)) = None"
  shows "NewRedisSessionStore net config =
     (case Server config of
        None \<Rightarrow> (None, Some (Errorf ''MCP server reference is required''))
      | Some srv \<Rightarrow>
          (Some \<lparr>client = \<lparr>options = dialled config, backend = net (dialled config), closed = False\<rparr>,
                 prefix = (if Prefix config = [] then ''mcp:session:'' else Prefix config),
                 ttl = (if TTL config = 0 then Hour else TTL config),
                 server = Some srv, activeSessions = [],
                 activeSessionMu = \<lparr>readers = 0, writer = False\<rparr>,
                 accessLog = []\<rparr>, None))"
  using assms
  by (cases "Addr config = []")
     (simp_all add: dialled_def NewRedisSessionStore_def Let_def NewClient_def client_Ping_def
        cmd_err_def Background_def split: option.splits)

text \<open>A store that has just been constructed (a process that has just started) has an
  empty hot tier.\<close>

lemma NewRedisSessionStore_hot_tier_empty:
  "NewRedisSessionStore net config = (Some store, None) \<Longrightarrow> activeSessions store = []"
  by (cases "fault (net (dialled config))")
     (auto simp add: NewRedisSessionStore_probe_fails NewRedisSessionStore_probe_ok
        split: option.splits)

subsection \<open>Delete\<close>

lemma Delete_v2_fail:
  "cmd_err c (client r) = Some e \<Longrightarrow>
   Delete_v2 r c x = (Some (Errorf_w ''failed to delete session from Redis'' e), r)"
  by (simp add: Delete_v2_def client_Del_def)

lemma Delete_v2_ok:
  "cmd_err c (client r) = None \<Longrightarrow>
   fst (Delete_v2 r c x) = None \<and>
   activeSessions (snd (Delete_v2 r c x)) = AList.delete x (activeSessions r) \<and>
   entries (backend (client (snd (Delete_v2 r c x)))) = (entries (backend (client r)))(getKey r x := None) \<and>
   cmd_err c (client (snd (Delete_v2 r c x))) = None \<and>
   getKey (snd (Delete_v2 r c x)) = getKey r"
  by (auto simp add: Delete_v2_def client_Del_def map_defs Let_def cmd_err_def
        split: if_splits option.splits)

text \<open>The three \<^verbatim>\<open>Delete\<close> methods are one text; variants 1 and 3 fix the context to
  \<^verbatim>\<open>context.Background()\<close>.\<close>

lemma Delete_v1_eq: "Delete_v1 r x = Delete_v2 r Background x"
  by (simp add: Delete_v1_def Delete_v2_def Let_def)

lemma Delete_v3_eq: "Delete_v3 r x = Delete_v2 r Background x"
  by (simp add: Delete_v3_def Delete_v2_def Let_def)

subsection \<open>Store and Set\<close>

lemma Store_v2_marshal_fail:
  "marshal s = Inl e \<Longrightarrow>
   Store_v2 marshal r c x s = (Some (Errorf_w ''failed to marshal session data'' e), r)"
  by (simp add: Store_v2_def)

lemma Store_v2_set_fail:
  "marshal s = Inr d \<Longrightarrow> cmd_err c (client r) = Some e \<Longrightarrow>
   Store_v2 marshal r c x s = (Some (Errorf_w ''failed to set session in Redis'' e), r)"
  by (simp add: Store_v2_def client_Set_def)

lemma Store_v2_ok:
  "marshal s = Inr d \<Longrightarrow> cmd_err c (client r) = None \<Longrightarrow>
   fst (Store_v2 marshal r c x s) = None \<and>
   activeSessions (snd (Store_v2 marshal r c x s)) = AList.update x s (activeSessions r) \<and>
   entries (backend (client (snd (Store_v2 marshal r c x s))))
     = (entries (backend (client r)))(getKey r x \<mapsto> (d, ttl r))"
  by (simp add: Store_v2_def client_Set_def map_defs Let_def)

lemma Store_v2_installs:
  "fst (Store_v2 marshal r c x s) = None \<Longrightarrow>
   map_of (activeSessions (snd (Store_v2 marshal r c x s))) x = Some s"
proof (cases "marshal s")
  case (Inl e)
  assume "fst (Store_v2 marshal r c x s) = None"
  with Inl show ?thesis by (simp add: Store_v2_marshal_fail)
next
  case (Inr d)
  assume ok: "fst (Store_v2 marshal r c x s) = None"
  show ?thesis
  proof (cases "cmd_err c (client r)")
    case None
    then show ?thesis using Inr Store_v2_ok [of marshal s d c r x] by (simp add: update_conv')
  next
    case (Some e)
    then show ?thesis using Inr ok by (simp add: Store_v2_set_fail)
  qed
qed

lemma Set_v1_marshal_fail:
  "marshal \<lparr>SessionID = x\<rparr> = Inl e \<Longrightarrow>
   Set_v1 marshal r x s = (Some (Errorf_w ''failed to marshal session data'' e), r)"
  by (simp add: Set_v1_def)

lemma Set_v1_set_fail:
  "marshal \<lparr>SessionID = x\<rparr> = Inr d \<Longrightarrow> cmd_err Background (client r) = Some e \<Longrightarrow>
   Set_v1 marshal r x s = (Some (Errorf_w ''failed to set session in Redis'' e), r)"
  by (simp add: Set_v1_def client_Set_def)

lemma Set_v1_ok:
  "marshal \<lparr>SessionID = x\<rparr> = Inr d \<Longrightarrow> cmd_err Background (client r) = None \<Longrightarrow>
   fst (Set_v1 marshal r x s) = None \<and>
   activeSessions (snd (Set_v1 marshal r x s)) = AList.update x s (activeSessions r) \<and>
   entries (backend (client (snd (Set_v1 marshal r x s))))
     = (entries (backend (client r)))(getKey r x \<mapsto> (d, ttl r))"
  by (simp add: Set_v1_def client_Set_def map_defs Let_def)

text \<open>\<^verbatim>\<open>Set\<close> of variant 3 is the text of \<^verbatim>\<open>Set\<close> of variant 1.\<close>

lemma Set_v3_eq: "Set_v3 marshal r x s = Set_v1 marshal r x s"
  by (simp add: Set_v3_def Set_v1_def)

lemma Set_v1_atomic:
  "(fst (Set_v1 marshal r x s) \<noteq> None \<longrightarrow>
      activeSessions (snd (Set_v1 marshal r x s)) = activeSessions r \<and>
      entries (backend (client (snd (Set_v1 marshal r x s)))) = entries (backend (client r))) \<and>
   (fst (Set_v1 marshal r x s) = None \<longrightarrow>
      map_of (activeSessions (snd (Set_v1 marshal r x s))) x = Some s)"
proof (cases "marshal \<lparr>SessionID = x\<rparr>")
  case (Inl e)
  then show ?thesis by (simp add: Set_v1_marshal_fail)
next
  case (Inr d)
  show ?thesis
  proof (cases "cmd_err Background (client r)")
    case None
    then show ?thesis using Inr Set_v1_ok [of marshal x d r s] by (simp add: update_conv')
  next
    case (Some e)
    then show ?thesis using Inr by (simp add: Set_v1_set_fail)
  qed
qed

subsection \<open>Load and Get\<close>

lemma Load_v2_hit:
  "map_of (activeSessions r) x = Some s \<Longrightarrow>
   fst (Load_v2 unmarshal r c x) = (s, None) \<and>
   activeSessions (snd (Load_v2 unmarshal r c x)) = activeSessions r \<and>
   client (snd (Load_v2 unmarshal r c x)) = client r"
  by (simp add: Load_v2_def map_defs Let_def)

lemma Load_v2_absent:
  "map_of (activeSessions r) x = None \<Longrightarrow> cmd_err c (client r) = None \<Longrightarrow>
   entries (backend (client r)) (getKey r x) = None \<Longrightarrow>
   fst (Load_v2 unmarshal r c x) = (None, Some ErrNotExist) \<and>
   activeSessions (snd (Load_v2 unmarshal r c x)) = activeSessions r"
  by (simp add: Load_v2_def map_defs Let_def client_Get_def)

text \<open>The path through the durable tier: a miss in the hot tier, a record in Redis that
  decodes to \<open>s\<close>. The session is returned and installed in the hot tier.\<close>

lemma Load_v2_durable_hit:
  "map_of (activeSessions r) x = None \<Longrightarrow> cmd_err c (client r) = None \<Longrightarrow>
   entries (backend (client r)) (getKey r x) = Some (d, t) \<Longrightarrow> unmarshal d = Inr s \<Longrightarrow>
   fst (Load_v2 unmarshal r c x) = (Some s, None) \<and>
   activeSessions (snd (Load_v2 unmarshal r c x)) = AList.update x (Some s) (activeSessions r)"
  by (simp add: Load_v2_def map_defs Let_def client_Get_def)

text \<open>A failure of the durable tier other than "key absent" is returned wrapped.\<close>

lemma Load_v2_storage_error:
  "map_of (activeSessions r) x = None \<Longrightarrow> cmd_err c (client r) = Some e \<Longrightarrow> e \<noteq> RedisNil \<Longrightarrow>
   Load_v2 unmarshal r c x
     = ((None, Some (Errorf_w ''failed to get session from Redis'' e)),
        r\<lparr>accessLog := accessLog r @ [(MapRead, (activeSessionMu r)\<lparr>readers := Suc (readers (activeSessionMu r))\<rparr>)]\<rparr>)"
  by (simp add: Load_v2_def map_defs Let_def client_Get_def)

lemma Get_v1_hit:
  "map_of (activeSessions r) x = Some s \<Longrightarrow>
   fst (Get_v1 unmarshal r c x) = (s, None) \<and>
   activeSessions (snd (Get_v1 unmarshal r c x)) = activeSessions r"
  by (simp add: Get_v1_def map_defs Let_def)

lemma Get_v1_absent:
  "map_of (activeSessions r) x = None \<Longrightarrow> cmd_err c (client r) = None \<Longrightarrow>
   entries (backend (client r)) (getKey r x) = None \<Longrightarrow>
   fst (Get_v1 unmarshal r c x) = (None, None) \<and>
   activeSessions (snd (Get_v1 unmarshal r c x)) = activeSessions r"
  by (simp add: Get_v1_def map_defs Let_def client_Get_def)

lemma Get_v3_hit:
  "map_of (activeSessions r) x = Some s \<Longrightarrow>
   fst (Get_v3 zero assertT unmarshal r x) = (s, None) \<and>
   activeSessions (snd (Get_v3 zero assertT unmarshal r x)) = activeSessions r"
  by (simp add: Get_v3_def map_defs Let_def)

lemma Get_v3_absent:
  "map_of (activeSessions r) x = None \<Longrightarrow> cmd_err Background (client r) = None \<Longrightarrow>
   entries (backend (client r)) (getKey r x) = None \<Longrightarrow>
   fst (Get_v3 zero assertT unmarshal r x) = (zero, None) \<and>
   activeSessions (snd (Get_v3 zero assertT unmarshal r x)) = activeSessions r"
  by (simp add: Get_v3_def map_defs Let_def client_Get_def)

subsection \<open>Which calls keep an entry of the hot tier\<close>

lemma Load_v2_hot: "hot r x \<Longrightarrow> hot (snd (Load_v2 unmarshal r c y)) x"
  by (auto simp add: hot_def Load_v2_def map_defs Let_def update_conv'
      split: option.splits sum.splits prod.splits)

lemma Store_v2_hot: "hot r x \<Longrightarrow> hot (snd (Store_v2 marshal r c y s)) x"
  by (auto simp add: hot_def Store_v2_def map_defs Let_def update_conv'
      split: option.splits sum.splits prod.splits)

lemma Delete_v2_hot: "y \<noteq> x \<Longrightarrow> hot r x \<Longrightarrow> hot (snd (Delete_v2 r c y)) x"
  by (auto simp add: hot_def Delete_v2_def map_defs Let_def delete_conv'
      split: option.splits sum.splits prod.splits)

lemma Close_hot: "hot (snd (Close r)) x = hot r x"
  by (simp add: hot_def Close_def split: prod.splits)

lemma Health_hot: "hot (snd (Health r c)) x = hot r x"
  by (simp add: hot_def Health_def)

lemma Exists_v1_hot: "hot (snd (Exists_v1 r y)) x = hot r x"
  by (auto simp add: hot_def Exists_v1_def map_defs Let_def
      split: option.splits sum.splits prod.splits)

lemma Get_v1_hot: "hot r x \<Longrightarrow> hot (snd (Get_v1 unmarshal r c y)) x"
  by (auto simp add: hot_def Get_v1_def map_defs Let_def update_conv'
      split: option.splits sum.splits prod.splits)

lemma Set_v1_hot: "hot r x \<Longrightarrow> hot (snd (Set_v1 marshal r y s)) x"
  by (auto simp add: hot_def Set_v1_def map_defs Let_def update_conv'
      split: option.splits sum.splits prod.splits)

lemma Range_v1_hot: "hot (snd (Range_v1 r f s)) x = hot r x"
  by (simp add: hot_def Range_v1_def map_defs Let_def)

lemma Get_v3_hot: "hot r x \<Longrightarrow> hot (snd (Get_v3 zero assertT unmarshal r y)) x"
  by (auto simp add: hot_def Get_v3_def map_defs Let_def update_conv'
      split: option.splits sum.splits prod.splits)

lemma All_seq_v3_hot: "hot (snd (All_seq_v3 r yield s)) x = hot r x"
  by (simp add: hot_def All_seq_v3_def map_defs Let_def)

lemma step_v1_hot:
  "hot r x \<Longrightarrow> call \<noteq> Delete1 x \<Longrightarrow> hot (step_v1 marshal unmarshal r call) x"
  by (cases call)
     (simp_all add: Exists_v1_hot Get_v1_hot Set_v1_hot Delete_v1_eq Delete_v2_hot Range_v1_hot
        Close_hot Health_hot)

lemma step_v2_hot:
  "hot r x \<Longrightarrow> \<forall>c. call \<noteq> Delete2 c x \<Longrightarrow> hot (step_v2 marshal unmarshal r call) x"
  by (cases call)
     (simp_all add: Load_v2_hot Store_v2_hot Delete_v2_hot Close_hot Health_hot)

lemma step_v3_hot:
  "hot r x \<Longrightarrow> call \<noteq> Delete3 x \<Longrightarrow> call \<noteq> Reset3 \<Longrightarrow>
   hot (step_v3 zero assertT marshal unmarshal r call) x"
  by (cases call)
     (simp_all add: Get_v3_hot Set_v3_eq Set_v1_hot Delete_v3_eq Delete_v2_hot All_seq_v3_hot
        Close_hot Health_hot All_v3_def)

lemma run_v1_hot:
  "hot r x \<Longrightarrow> Delete1 x \<notin> set calls \<Longrightarrow>
   hot (fold (\<lambda>call r. step_v1 marshal unmarshal r call) calls r) x"
proof (induction calls arbitrary: r)
  case Nil
  then show ?case by simp
next
  case (Cons call calls)
  from Cons.prems have "hot (step_v1 marshal unmarshal r call) x"
    by (intro step_v1_hot) auto
  with Cons show ?case by simp
qed

lemma run_v2_hot:
  "hot r x \<Longrightarrow> \<forall>c. Delete2 c x \<notin> set calls \<Longrightarrow>
   hot (fold (\<lambda>call r. step_v2 marshal unmarshal r call) calls r) x"
proof (induction calls arbitrary: r)
  case Nil
  then show ?case by simp
next
  case (Cons call calls)
  from Cons.prems have "hot (step_v2 marshal unmarshal r call) x"
    by (intro step_v2_hot) auto
  with Cons show ?case by simp
qed

lemma run_v3_hot:
  "hot r x \<Longrightarrow> Delete3 x \<notin> set calls \<Longrightarrow> Reset3 \<notin> set calls \<Longrightarrow>
   hot (fold (\<lambda>call r. step_v3 zero assertT marshal unmarshal r call) calls r) x"
proof (induction calls arbitrary: r)
  case Nil
  then show ?case by simp
next
  case (Cons call calls)
  from Cons.prems have "hot (step_v3 zero assertT marshal unmarshal r call) x"
    by (intro step_v3_hot) auto
  with Cons show ?case by simp
qed

subsection \<open>Which calls follow the locking discipline\<close>

lemma Get_v1_disciplined:
  "activeSessionMu r = free \<Longrightarrow> disciplined r (snd (Get_v1 unmarshal r c x))"
  by (auto simp add: disciplined_def lock_held_def free_def Get_v1_def map_defs Let_def
      split: option.splits sum.splits prod.splits)

lemma Set_v1_disciplined:
  "activeSessionMu r = free \<Longrightarrow> disciplined r (snd (Set_v1 marshal r x s))"
  by (auto simp add: disciplined_def lock_held_def free_def Set_v1_def map_defs Let_def
      split: option.splits sum.splits prod.splits)

lemma Delete_v2_disciplined:
  "activeSessionMu r = free \<Longrightarrow> disciplined r (snd (Delete_v2 r c x))"
  by (auto simp add: disciplined_def lock_held_def free_def Delete_v2_def map_defs Let_def
      split: option.splits sum.splits prod.splits)

lemma Range_v1_disciplined:
  "activeSessionMu r = free \<Longrightarrow> disciplined r (snd (Range_v1 r f s))"
  by (auto simp add: disciplined_def lock_held_def free_def Range_v1_def map_defs Let_def
      split: option.splits sum.splits prod.splits)

lemma Load_v2_disciplined:
  "activeSessionMu r = free \<Longrightarrow> disciplined r (snd (Load_v2 unmarshal r c x))"
  by (auto simp add: disciplined_def lock_held_def free_def Load_v2_def map_defs Let_def
      split: option.splits sum.splits prod.splits)

lemma Store_v2_disciplined:
  "activeSessionMu r = free \<Longrightarrow> disciplined r (snd (Store_v2 marshal r c x s))"
  by (auto simp add: disciplined_def lock_held_def free_def Store_v2_def map_defs Let_def
      split: option.splits sum.splits prod.splits)

lemma Get_v3_disciplined:
  "activeSessionMu r = free \<Longrightarrow> disciplined r (snd (Get_v3 zero assertT unmarshal r x))"
  by (auto simp add: disciplined_def lock_held_def free_def Get_v3_def map_defs Let_def
      split: option.splits sum.splits prod.splits)

lemma All_seq_v3_disciplined:
  "activeSessionMu r = free \<Longrightarrow> disciplined r (snd (All_seq_v3 r yield s))"
  by (auto simp add: disciplined_def lock_held_def free_def All_seq_v3_def map_defs Let_def
      split: option.splits sum.splits prod.splits)

lemma Reset_v3_disciplined:
  "activeSessionMu r = free \<Longrightarrow> disciplined r (snd (Reset_v3 r))"
  by (auto simp add: disciplined_def lock_held_def free_def Reset_v3_def map_defs Let_def
      split: option.splits sum.splits prod.splits)

text \<open>\<^verbatim>\<open>Exists\<close> of variant 1 reads the map in whatever state the mutex is in: it makes no
  lock call.\<close>

lemma Exists_v1_log:
  "accessLog (snd (Exists_v1 r x)) = accessLog r @ [(MapRead, activeSessionMu r)]"
  by (auto simp add: Exists_v1_def map_defs Let_def split: option.splits sum.splits prod.splits)

lemma Exists_v1_undisciplined:
  "activeSessionMu r = free \<Longrightarrow> \<not> disciplined r (snd (Exists_v1 r x))"
  by (simp add: disciplined_def Exists_v1_log lock_held_def free_def)

section \<open>The claims\<close>

subsection \<open>C1: Delete and the hot tier when the durable delete fails\<close>

text \<open>
  C1 says that the entry of the hot tier is absent after \<^verbatim>\<open>Delete\<close> returns, whether or
  not the durable delete succeeded. The code returns as soon as the durable delete
  fails: on the store whose Redis server does not answer, \<^verbatim>\<open>Delete("abc")\<close> returns the
  wrapped error and the hot tier still holds the session \<open>''abc''\<close>.
\<close>

theorem Delete_failure_keeps_hot_entry:
  "fst (Delete_v2 unreachable_store Background ''abc'')
     = Some (Errorf_w ''failed to delete session from Redis'' (Failure ''i/o timeout'')) \<and>
   map_of (activeSessions (snd (Delete_v2 unreachable_store Background ''abc''))) ''abc''
     = Some (Some ''state'')"
  by (simp add: Delete_v2_def client_defs unreachable_store_def)

text \<open>
  C1, amended: in the three variants, when \<^verbatim>\<open>Delete\<close> returns an error the hot tier is
  exactly what it was before the call, and when \<^verbatim>\<open>Delete\<close> returns no error the hot tier
  has no entry for the identifier.
\<close>

theorem Delete_hot_tier_follows_durable:
  "(fst (Delete_v2 r c x) \<noteq> None \<longrightarrow> activeSessions (snd (Delete_v2 r c x)) = activeSessions r) \<and>
   (fst (Delete_v2 r c x) = None \<longrightarrow> map_of (activeSessions (snd (Delete_v2 r c x))) x = None) \<and>
   (fst (Delete_v1 r x) \<noteq> None \<longrightarrow> activeSessions (snd (Delete_v1 r x)) = activeSessions r) \<and>
   (fst (Delete_v1 r x) = None \<longrightarrow> map_of (activeSessions (snd (Delete_v1 r x))) x = None) \<and>
   (fst (Delete_v3 r x) \<noteq> None \<longrightarrow> activeSessions (snd (Delete_v3 r x)) = activeSessions r) \<and>
   (fst (Delete_v3 r x) = None \<longrightarrow> map_of (activeSessions (snd (Delete_v3 r x))) x = None)"
proof -
  have main: "(fst (Delete_v2 r c' x) \<noteq> None \<longrightarrow> activeSessions (snd (Delete_v2 r c' x)) = activeSessions r) \<and>
     (fst (Delete_v2 r c' x) = None \<longrightarrow> map_of (activeSessions (snd (Delete_v2 r c' x))) x = None)" for c'
  proof (cases "cmd_err c' (client r)")
    case None
    then show ?thesis using Delete_v2_ok [of c' r x] by (simp add: delete_conv')
  next
    case (Some e)
    then show ?thesis by (simp add: Delete_v2_fail)
  qed
  show ?thesis using main [of c] main [of Background]
    by (simp only: Delete_v1_eq Delete_v3_eq) simp
qed

theorem Delete_hot_tier_follows_durable_witness:
  "fst (Delete_v2 unreachable_store Background ''abc'') \<noteq> None \<and>
   activeSessions (snd (Delete_v2 unreachable_store Background ''abc'')) = activeSessions unreachable_store \<and>
   fst (Delete_v2 reachable_store Background ''abc'') = None \<and>
   map_of (activeSessions (snd (Delete_v2 reachable_store Background ''abc''))) ''abc'' = None"
proof -
  have a: "fst (Delete_v2 unreachable_store Background ''abc'') \<noteq> None"
    by (simp add: Delete_v2_def client_defs unreachable_store_def)
  have b: "fst (Delete_v2 reachable_store Background ''abc'') = None"
    by (simp add: Delete_v2_def client_defs reachable_store_def map_defs Let_def)
  show ?thesis
    using a b
      Delete_hot_tier_follows_durable [of unreachable_store Background "''abc''"]
      Delete_hot_tier_follows_durable [of reachable_store Background "''abc''"]
    by simp
qed

subsection \<open>C2: Store applies to both tiers or to neither\<close>

text \<open>
  C2: if \<^verbatim>\<open>Store\<close> fails, by a serialization failure or by a failure of the durable
  write, the hot-tier map is left exactly as it was (and so is the durable tier); if it
  succeeds, the hot tier maps the identifier to the session and the durable tier holds
  the serialized record under the namespaced key with the configured time-to-live.
\<close>

theorem Store_all_or_nothing:
  "(fst (Store_v2 marshal r c x s) \<noteq> None \<longrightarrow>
      activeSessions (snd (Store_v2 marshal r c x s)) = activeSessions r \<and>
      entries (backend (client (snd (Store_v2 marshal r c x s)))) = entries (backend (client r))) \<and>
   (fst (Store_v2 marshal r c x s) = None \<longrightarrow>
      map_of (activeSessions (snd (Store_v2 marshal r c x s))) x = Some s \<and>
      (\<exists>d. marshal s = Inr d \<and>
           entries (backend (client (snd (Store_v2 marshal r c x s)))) (getKey r x) = Some (d, ttl r))) \<and>
   (fst (Set_v1 marshal1 r x v) \<noteq> None \<longrightarrow>
      activeSessions (snd (Set_v1 marshal1 r x v)) = activeSessions r \<and>
      entries (backend (client (snd (Set_v1 marshal1 r x v)))) = entries (backend (client r))) \<and>
   (fst (Set_v1 marshal1 r x v) = None \<longrightarrow>
      map_of (activeSessions (snd (Set_v1 marshal1 r x v))) x = Some v)"
proof -
  have store: "(fst (Store_v2 marshal r c x s) \<noteq> None \<longrightarrow>
      activeSessions (snd (Store_v2 marshal r c x s)) = activeSessions r \<and>
      entries (backend (client (snd (Store_v2 marshal r c x s)))) = entries (backend (client r))) \<and>
   (fst (Store_v2 marshal r c x s) = None \<longrightarrow>
      map_of (activeSessions (snd (Store_v2 marshal r c x s))) x = Some s \<and>
      (\<exists>d. marshal s = Inr d \<and>
           entries (backend (client (snd (Store_v2 marshal r c x s)))) (getKey r x) = Some (d, ttl r)))"
  proof (cases "marshal s")
    case (Inl e)
    then show ?thesis by (simp add: Store_v2_marshal_fail)
  next
    case (Inr d)
    show ?thesis
    proof (cases "cmd_err c (client r)")
      case None
      then show ?thesis using Inr Store_v2_ok [of marshal s d c r x] by (simp add: update_conv')
    next
      case (Some e)
      then show ?thesis using Inr by (simp add: Store_v2_set_fail)
    qed
  qed
  show ?thesis using store Set_v1_atomic [of marshal1 r x v] by blast
qed

theorem Store_all_or_nothing_witness:
  "fst (Store_v2 json_state unreachable_store Background ''abc'' (Some ''new'')) \<noteq> None \<and>
   activeSessions (snd (Store_v2 json_state unreachable_store Background ''abc'' (Some ''new'')))
     = [(''abc'', Some ''state'')] \<and>
   fst (Store_v2 json_reject reachable_store Background ''abc'' (Some ''new'')) \<noteq> None \<and>
   activeSessions (snd (Store_v2 json_reject reachable_store Background ''abc'' (Some ''new'')))
     = [(''abc'', Some ''state'')] \<and>
   fst (Store_v2 json_state reachable_store Background ''abc'' (Some ''new'')) = None \<and>
   map_of (activeSessions (snd (Store_v2 json_state reachable_store Background ''abc'' (Some ''new'')))) ''abc''
     = Some (Some ''new'')"
proof -
  have a: "fst (Store_v2 json_state unreachable_store Background ''abc'' (Some ''new'')) \<noteq> None"
    by (simp add: Store_v2_def json_state_def client_defs unreachable_store_def)
  have b: "fst (Store_v2 json_reject reachable_store Background ''abc'' (Some ''new'')) \<noteq> None"
    by (simp add: Store_v2_def json_reject_def)
  have c: "fst (Store_v2 json_state reachable_store Background ''abc'' (Some ''new'')) = None"
    by (simp add: Store_v2_def json_state_def client_defs reachable_store_def map_defs Let_def)
  have u: "activeSessions unreachable_store = [(''abc'', Some ''state'')]"
    by (simp add: unreachable_store_def)
  have v: "activeSessions reachable_store = [(''abc'', Some ''state'')]"
    by (simp add: reachable_store_def)
  show ?thesis
    using a b c u v
      Store_all_or_nothing [of json_state unreachable_store Background "''abc''" "Some ''new''"]
      Store_all_or_nothing [of json_reject reachable_store Background "''abc''" "Some ''new''"]
      Store_all_or_nothing [of json_state reachable_store Background "''abc''" "Some ''new''"]
    by simp
qed

subsection \<open>C3: an identifier that was never stored\<close>

text \<open>
  C3 says that a lookup of an identifier that was never stored signals a distinguished
  not-found outcome that is not a success value. \<^verbatim>\<open>Get\<close> of variant 1 does not: for the
  identifier \<open>''abc''\<close>, absent from both tiers of the empty store, it returns the \<^verbatim>\<open>nil\<close>
  transport with a \<^verbatim>\<open>nil\<close> error, and that is the very pair it returns, as a success,
  for the hit on \<open>''abc''\<close> after \<^verbatim>\<open>Set("abc", nil)\<close>.
\<close>

theorem Get_never_stored_returns_success_shape:
  "map_of (activeSessions empty_store_v1) ''abc'' = None \<and>
   entries (backend (client empty_store_v1)) (getKey empty_store_v1 ''abc'') = None \<and>
   Get_v1 parse_data empty_store_v1 Background ''abc''
     = ((None, None),
        empty_store_v1\<lparr>accessLog := [(MapRead, \<lparr>readers = 1, writer = False\<rparr>)]\<rparr>) \<and>
   fst (Set_v1 json_data empty_store_v1 ''abc'' None) = None \<and>
   map_of (activeSessions (snd (Set_v1 json_data empty_store_v1 ''abc'' None))) ''abc'' = Some None \<and>
   fst (Get_v1 parse_data (snd (Set_v1 json_data empty_store_v1 ''abc'' None)) Background ''abc'')
     = (None, None)"
  by (simp add: Get_v1_def Set_v1_def json_data_def empty_store_v1_def map_defs client_defs Let_def)

text \<open>
  C3, amended: for an identifier that is absent from the hot tier and from the durable
  tier, with the durable tier answering the lookup, \<^verbatim>\<open>Load\<close> (variant 2) returns no
  session and the distinguished error \<^verbatim>\<open>fs.ErrNotExist\<close>, which is neither \<^verbatim>\<open>nil\<close> nor a
  wrapped storage error, and leaves the hot tier as it was; \<^verbatim>\<open>Get\<close> of variants 1 and 3
  returns the zero value with a \<^verbatim>\<open>nil\<close> error, and leaves the hot tier as it was.
\<close>

theorem Load_never_stored_not_found:
  "(map_of (activeSessions r) x = None \<and> entries (backend (client r)) (getKey r x) = None \<and>
    cmd_err c (client r) = None
      \<longrightarrow> fst (Load_v2 unmarshal r c x) = (None, Some ErrNotExist) \<and>
          activeSessions (snd (Load_v2 unmarshal r c x)) = activeSessions r) \<and>
   (map_of (activeSessions r1) x = None \<and> entries (backend (client r1)) (getKey r1 x) = None \<and>
    cmd_err c (client r1) = None
      \<longrightarrow> fst (Get_v1 unmarshal1 r1 c x) = (None, None) \<and>
          activeSessions (snd (Get_v1 unmarshal1 r1 c x)) = activeSessions r1) \<and>
   (map_of (activeSessions r3) x = None \<and> entries (backend (client r3)) (getKey r3 x) = None \<and>
    cmd_err Background (client r3) = None
      \<longrightarrow> fst (Get_v3 zero assertT unmarshal1 r3 x) = (zero, None) \<and>
          activeSessions (snd (Get_v3 zero assertT unmarshal1 r3 x)) = activeSessions r3)"
  using Load_v2_absent [of r x c unmarshal] Get_v1_absent [of r1 x c unmarshal1]
    Get_v3_absent [of r3 x zero assertT unmarshal1]
  by blast

theorem Load_never_stored_not_found_witness:
  "fst (Load_v2 parse_state empty_store Background ''abc'') = (None, Some ErrNotExist) \<and>
   fst (Get_v1 parse_data empty_store_v1 Background ''abc'') = (None, None) \<and>
   fst (Get_v3 None (\<lambda>t. Some (Some t)) parse_data empty_store_v1 ''abc'') = (None, None)"
proof -
  have a: "map_of (activeSessions empty_store) ''abc'' = None \<and>
           entries (backend (client empty_store)) (getKey empty_store ''abc'') = None \<and>
           cmd_err Background (client empty_store) = None"
    by (simp add: empty_store_def client_defs getKey_def)
  have b: "map_of (activeSessions empty_store_v1) ''abc'' = None \<and>
           entries (backend (client empty_store_v1)) (getKey empty_store_v1 ''abc'') = None \<and>
           cmd_err Background (client empty_store_v1) = None"
    by (simp add: empty_store_v1_def client_defs getKey_def)
  show ?thesis
    using a b
      Load_never_stored_not_found [of empty_store "''abc''" Background parse_state empty_store_v1
        parse_data empty_store_v1 None "\<lambda>t. Some (Some t)"]
    by blast
qed

subsection \<open>C4: Store, then Load\<close>

text \<open>
  C4: after a successful \<^verbatim>\<open>Store(x, R)\<close>, the \<^verbatim>\<open>Load(x)\<close> that follows immediately, under
  any context, succeeds and returns exactly the session \<open>R\<close> that was stored: it is
  served from the hot tier, where \<^verbatim>\<open>Store\<close> installed it. The same holds for \<^verbatim>\<open>Set\<close>
  followed by \<^verbatim>\<open>Get\<close> in variants 1 and 3.
\<close>

theorem Store_then_Load_roundtrip:
  "(fst (Store_v2 marshal r c x s) = None
      \<longrightarrow> fst (Load_v2 unmarshal (snd (Store_v2 marshal r c x s)) c' x) = (s, None)) \<and>
   (fst (Set_v1 marshal1 r1 x t) = None
      \<longrightarrow> fst (Get_v1 unmarshal1 (snd (Set_v1 marshal1 r1 x t)) c' x) = (t, None)) \<and>
   (fst (Set_v3 marshal1 r3 x v) = None
      \<longrightarrow> fst (Get_v3 zero assertT unmarshal1 (snd (Set_v3 marshal1 r3 x v)) x) = (v, None))"
proof -
  have a: "fst (Store_v2 marshal r c x s) = None \<Longrightarrow>
           map_of (activeSessions (snd (Store_v2 marshal r c x s))) x = Some s"
    by (rule Store_v2_installs)
  have b: "fst (Set_v1 marshal1 r1 x t) = None \<Longrightarrow>
           map_of (activeSessions (snd (Set_v1 marshal1 r1 x t))) x = Some t"
    using Set_v1_atomic [of marshal1 r1 x t] by simp
  have c: "fst (Set_v3 marshal1 r3 x v) = None \<Longrightarrow>
           map_of (activeSessions (snd (Set_v3 marshal1 r3 x v))) x = Some v"
    using Set_v1_atomic [of marshal1 r3 x v] by (simp add: Set_v3_eq)
  show ?thesis
    using a b c by (simp add: Load_v2_hit Get_v1_hit Get_v3_hit)
qed

theorem Store_then_Load_roundtrip_witness:
  "fst (Store_v2 json_state empty_store Background ''abc'' (Some ''R'')) = None \<and>
   fst (Load_v2 parse_state (snd (Store_v2 json_state empty_store Background ''abc'' (Some ''R'')))
          Background ''abc'') = (Some ''R'', None) \<and>
   fst (Set_v1 json_data empty_store_v1 ''abc'' (Some (StreamableServerTransport ''abc''))) = None \<and>
   fst (Get_v1 parse_data
          (snd (Set_v1 json_data empty_store_v1 ''abc'' (Some (StreamableServerTransport ''abc''))))
          Background ''abc'') = (Some (StreamableServerTransport ''abc''), None)"
proof -
  have a: "fst (Store_v2 json_state empty_store Background ''abc'' (Some ''R'')) = None"
    by (simp add: Store_v2_def json_state_def client_defs empty_store_def map_defs Let_def)
  have b: "fst (Set_v1 json_data empty_store_v1 ''abc'' (Some (StreamableServerTransport ''abc''))) = None"
    by (simp add: Set_v1_def json_data_def client_defs empty_store_v1_def map_defs Let_def)
  show ?thesis
    using a b
      Store_then_Load_roundtrip [of json_state empty_store Background "''abc''" "Some ''R''"
        parse_state Background json_data empty_store_v1 "Some (StreamableServerTransport ''abc'')"
        parse_data empty_store_v1 None None "\<lambda>t. Some (Some t)"]
    by blast
qed

subsection \<open>C5: Delete is idempotent\<close>

text \<open>
  C5: with the durable tier answering, \<^verbatim>\<open>Delete(x)\<close> returns no error whether or not \<open>x\<close>
  was ever stored, a second \<^verbatim>\<open>Delete(x)\<close> right after it returns no error either, and
  after each of the two calls \<open>x\<close> is absent from the hot tier and from the durable
  tier.
\<close>

theorem Delete_idempotent:
  "(cmd_err c (client r) = None \<longrightarrow>
      fst (Delete_v2 r c x) = None \<and>
      fst (Delete_v2 (snd (Delete_v2 r c x)) c x) = None \<and>
      map_of (activeSessions (snd (Delete_v2 r c x))) x = None \<and>
      entries (backend (client (snd (Delete_v2 r c x)))) (getKey r x) = None \<and>
      map_of (activeSessions (snd (Delete_v2 (snd (Delete_v2 r c x)) c x))) x = None \<and>
      entries (backend (client (snd (Delete_v2 (snd (Delete_v2 r c x)) c x)))) (getKey r x) = None) \<and>
   (cmd_err Background (client r) = None \<longrightarrow>
      fst (Delete_v1 r x) = None \<and>
      fst (Delete_v1 (snd (Delete_v1 r x)) x) = None \<and>
      map_of (activeSessions (snd (Delete_v1 r x))) x = None \<and>
      entries (backend (client (snd (Delete_v1 r x)))) (getKey r x) = None \<and>
      map_of (activeSessions (snd (Delete_v1 (snd (Delete_v1 r x)) x))) x = None \<and>
      entries (backend (client (snd (Delete_v1 (snd (Delete_v1 r x)) x)))) (getKey r x) = None)"
proof -
  have twice: "fst (Delete_v2 r c' x) = None \<and>
      fst (Delete_v2 (snd (Delete_v2 r c' x)) c' x) = None \<and>
      map_of (activeSessions (snd (Delete_v2 r c' x))) x = None \<and>
      entries (backend (client (snd (Delete_v2 r c' x)))) (getKey r x) = None \<and>
      map_of (activeSessions (snd (Delete_v2 (snd (Delete_v2 r c' x)) c' x))) x = None \<and>
      entries (backend (client (snd (Delete_v2 (snd (Delete_v2 r c' x)) c' x)))) (getKey r x) = None"
    if up: "cmd_err c' (client r) = None" for c'
  proof -
    note one = Delete_v2_ok [OF up, of x]
    from one have up': "cmd_err c' (client (snd (Delete_v2 r c' x))) = None" by simp
    note two = Delete_v2_ok [OF up', of x]
    show ?thesis using one two by (simp add: delete_conv')
  qed
  show ?thesis using twice [of c] twice [of Background]
    by (simp only: Delete_v1_eq) blast
qed

theorem Delete_idempotent_witness:
  "fst (Delete_v2 empty_store Background ''never-stored'') = None \<and>
   fst (Delete_v2 reachable_store Background ''abc'') = None \<and>
   fst (Delete_v2 (snd (Delete_v2 reachable_store Background ''abc'')) Background ''abc'') = None \<and>
   map_of (activeSessions (snd (Delete_v2 (snd (Delete_v2 reachable_store Background ''abc''))
                                  Background ''abc''))) ''abc'' = None \<and>
   entries (backend (client (snd (Delete_v2 (snd (Delete_v2 reachable_store Background ''abc''))
                                    Background ''abc'')))) ''mcp:session:abc'' = None"
proof -
  have a: "cmd_err Background (client empty_store) = None"
    by (simp add: empty_store_def client_defs)
  have b: "cmd_err Background (client reachable_store) = None"
    by (simp add: reachable_store_def client_defs)
  have k: "getKey reachable_store ''abc'' = ''mcp:session:abc''"
    by (simp add: reachable_store_def getKey_def)
  show ?thesis
    using a b
      Delete_idempotent [of Background empty_store "''never-stored''"]
      Delete_idempotent [of Background reachable_store "''abc''"]
    by (simp add: k)
qed

subsection \<open>C6: what removes an entry of the hot tier\<close>

text \<open>
  C6 says that only \<^verbatim>\<open>Delete\<close> for the identifier, or a restart of the process, removes
  an entry of the hot tier. The generic variant has one more operation that does:
  \<^verbatim>\<open>Reset\<close> replaces the map by an empty one, so the session \<open>''abc''\<close> is gone after it.
\<close>

theorem Reset_evicts_hot_entry:
  "hot reachable_store ''abc'' \<and> \<not> hot (snd (Reset_v3 reachable_store)) ''abc''"
  by (simp add: hot_def reachable_store_def Reset_v3_def map_defs Let_def)

text \<open>
  C6, amended: an entry of the hot tier, once installed, is removed only by \<^verbatim>\<open>Delete\<close>
  for that identifier, by \<^verbatim>\<open>Reset\<close> (generic variant) or by a restart of the process.
  For every sequence of calls of a variant that contains no \<^verbatim>\<open>Delete\<close> of \<open>x\<close> (and, in
  the generic variant, no \<^verbatim>\<open>Reset\<close>), an identifier \<open>x\<close> that has an entry in the hot
  tier before the sequence has one after it.
\<close>

theorem hot_entry_survives_other_calls:
  "(hot r1 x \<and> Delete1 x \<notin> set calls1
      \<longrightarrow> hot (fold (\<lambda>call r. step_v1 marshal1 unmarshal1 r call) calls1 r1) x) \<and>
   (hot r2 x \<and> (\<forall>c. Delete2 c x \<notin> set calls2)
      \<longrightarrow> hot (fold (\<lambda>call r. step_v2 marshal2 unmarshal2 r call) calls2 r2) x) \<and>
   (hot r3 x \<and> Delete3 x \<notin> set calls3 \<and> Reset3 \<notin> set calls3
      \<longrightarrow> hot (fold (\<lambda>call r. step_v3 zero assertT marshal1 unmarshal1 r call) calls3 r3) x)"
  using run_v1_hot [of r1 x calls1 marshal1 unmarshal1]
    run_v2_hot [of r2 x calls2 marshal2 unmarshal2]
    run_v3_hot [of r3 x calls3 zero assertT marshal1 unmarshal1]
  by blast

theorem hot_entry_survives_other_calls_witness:
  "hot reachable_store_v1 ''abc'' \<and>
   hot (fold (\<lambda>call r. step_v1 json_data parse_data r call)
          [Exists1 ''abc'', Get1 Background ''xyz'', Set1 ''abc'' None, Delete1 ''xyz'',
           Range1 (\<lambda>k v n. Suc n) (0 :: nat), Health1 Background, Close1]
          reachable_store_v1) ''abc'' \<and>
   hot reachable_store ''abc'' \<and>
   hot (fold (\<lambda>call r. step_v2 json_state parse_state r call)
          [Load2 Background ''xyz'', Store2 Background ''abc'' None, Delete2 Background ''xyz'',
           Health2 Background, Close2]
          reachable_store) ''abc'' \<and>
   hot (fold (\<lambda>call r. step_v3 None (\<lambda>t. Some (Some t)) json_data parse_data r call)
          [Get3 ''xyz'', Set3 ''abc'' None, Delete3 ''xyz'', All3,
           Seq3 (\<lambda>v n. (True, Suc n)) (0 :: nat), Health3 Background, Close3]
          reachable_store_v1) ''abc''"
proof -
  have a: "hot reachable_store_v1 ''abc''"
    by (simp add: hot_def reachable_store_v1_def)
  have b: "hot reachable_store ''abc''"
    by (simp add: hot_def reachable_store_def)
  have c1: "Delete1 ''abc'' \<notin> set [Exists1 ''abc'', Get1 Background ''xyz'', Set1 ''abc'' None,
              Delete1 ''xyz'', Range1 (\<lambda>k v n. Suc n) (0 :: nat), Health1 Background, Close1]"
    by simp
  have c2: "\<forall>c. Delete2 c ''abc'' \<notin> set [Load2 Background ''xyz'', Store2 Background ''abc'' None,
              Delete2 Background ''xyz'', Health2 Background, Close2 :: string call_v2]"
    by simp
  have c3: "Delete3 ''abc'' \<notin> set [Get3 ''xyz'', Set3 ''abc'' None, Delete3 ''xyz'', All3,
              Seq3 (\<lambda>v n. (True, Suc n)) (0 :: nat), Health3 Background,
              Close3 :: (transport option, nat) call_v3] \<and>
            Reset3 \<notin> set [Get3 ''xyz'', Set3 ''abc'' None, Delete3 ''xyz'', All3,
              Seq3 (\<lambda>v n. (True, Suc n)) (0 :: nat), Health3 Background,
              Close3 :: (transport option, nat) call_v3]"
    by simp
  show ?thesis
    using a b c1 c2 c3
      hot_entry_survives_other_calls [of reachable_store_v1 "''abc''"
        "[Exists1 ''abc'', Get1 Background ''xyz'', Set1 ''abc'' None, Delete1 ''xyz'',
          Range1 (\<lambda>k v n. Suc n) (0 :: nat), Health1 Background, Close1]"
        json_data parse_data
        reachable_store
        "[Load2 Background ''xyz'', Store2 Background ''abc'' None, Delete2 Background ''xyz'',
          Health2 Background, Close2]"
        json_state parse_state
        reachable_store_v1
        "[Get3 ''xyz'', Set3 ''abc'' None, Delete3 ''xyz'', All3,
          Seq3 (\<lambda>v n. (True, Suc n)) (0 :: nat), Health3 Background, Close3]"
        None "\<lambda>t. Some (Some t)"]
    by blast
qed

subsection \<open>C7: every access to the hot-tier map holds the lock\<close>

text \<open>
  C7: every access to the hot-tier map holds the reader/writer lock, reads in shared
  mode and mutations in exclusive mode. \<^verbatim>\<open>Exists\<close> of variant 1 does not: called on a
  store whose mutex is free, it reads \<^verbatim>\<open>activeSessions\<close> while the mutex is still free,
  where \<^verbatim>\<open>Get\<close> of the same variant, on the same kind of store, takes the lock in shared
  mode for the same read.
\<close>

theorem Exists_reads_map_without_lock:
  "activeSessionMu empty_store_v1 = free \<and>
   accessLog (snd (Exists_v1 empty_store_v1 ''abc'')) = [(MapRead, free)] \<and>
   \<not> lock_held (MapRead, free) \<and>
   \<not> disciplined empty_store_v1 (snd (Exists_v1 empty_store_v1 ''abc'')) \<and>
   accessLog (snd (Get_v1 parse_data empty_store_v1 Background ''abc''))
     = [(MapRead, \<lparr>readers = 1, writer = False\<rparr>)] \<and>
   disciplined empty_store_v1 (snd (Get_v1 parse_data empty_store_v1 Background ''abc''))"
proof -
  have a: "activeSessionMu empty_store_v1 = free" by (simp add: empty_store_v1_def free_def)
  have l: "accessLog empty_store_v1 = []" by (simp add: empty_store_v1_def)
  have n: "\<not> lock_held (MapRead, free)" by (simp add: lock_held_def free_def)
  have g: "accessLog (snd (Get_v1 parse_data empty_store_v1 Background ''abc''))
             = [(MapRead, \<lparr>readers = 1, writer = False\<rparr>)]"
    by (simp add: Get_v1_def empty_store_v1_def map_defs client_defs Let_def)
  show ?thesis
    using a l n g Exists_v1_undisciplined [OF a] Get_v1_disciplined [OF a]
    by (simp add: Exists_v1_log)
qed

subsection \<open>C8: construction without an owner\<close>

text \<open>
  C8 says that construction with a \<^verbatim>\<open>nil\<close> owner fails with the configuration error
  that names the missing owner. When the Redis server does not answer the probe, the
  error is the connection error instead: the probe comes first.
\<close>

theorem nil_owner_unreachable_store_connection_error:
  "Server config_zero = None \<and>
   NewRedisSessionStore net_down config_zero =
     (None :: unit RedisSessionStore option,
      Some (Errorf_w ''failed to connect to Redis'' (Failure ''dial tcp: connection refused''))) \<and>
   Errorf_w ''failed to connect to Redis'' (Failure ''dial tcp: connection refused'')
     \<noteq> Errorf ''MCP server reference is required''"
  by (simp add: NewRedisSessionStore_probe_fails net_down_def config_zero_def)

text \<open>
  C8, amended: construction with a \<^verbatim>\<open>nil\<close> owner always fails and returns no store; when
  the liveness probe succeeds, the error is the configuration error
  \<^verbatim>\<open>"MCP server reference is required"\<close>.
\<close>

theorem nil_owner_construction_fails:
  "Server config = None \<Longrightarrow>
   fst (NewRedisSessionStore net config) = None \<and>
   snd (NewRedisSessionStore net config) \<noteq> None \<and>
   (fault (net (dialled config)) = None \<longrightarrow>
      snd (NewRedisSessionStore net config) = Some (Errorf ''MCP server reference is required''))"
  by (cases "fault (net (dialled config))")
     (simp_all add: NewRedisSessionStore_probe_fails NewRedisSessionStore_probe_ok)

theorem nil_owner_construction_fails_witness:
  "Server config_zero = None \<and> fault (net_up (dialled config_zero)) = None \<and>
   NewRedisSessionStore net_up config_zero =
     (None :: unit RedisSessionStore option, Some (Errorf ''MCP server reference is required''))"
proof -
  have a: "Server config_zero = None" by (simp add: config_zero_def)
  have b: "fault (net_up (dialled config_zero)) = None" by (simp add: net_up_def)
  have c: "fst (NewRedisSessionStore net_up config_zero :: unit RedisSessionStore option \<times> error option) = None \<and>
     snd (NewRedisSessionStore net_up config_zero :: unit RedisSessionStore option \<times> error option) \<noteq> None \<and>
     (fault (net_up (dialled config_zero)) = None \<longrightarrow>
        snd (NewRedisSessionStore net_up config_zero :: unit RedisSessionStore option \<times> error option)
          = Some (Errorf ''MCP server reference is required''))"
    by (rule nil_owner_construction_fails [OF a])
  show ?thesis using a b c by (simp add: prod_eq_iff)
qed

subsection \<open>C9: the defaults\<close>

text \<open>
  C9: in the store that construction returns, the address of the client, the key prefix
  and the time-to-live are the documented defaults (\<^verbatim>\<open>"localhost:6379"\<close>,
  \<^verbatim>\<open>"mcp:session:"\<close>, one hour, which is 3600000000000 nanoseconds) where the
  configuration leaves the field at its zero value, and the configured value, unchanged,
  where it is set.
\<close>

theorem construction_defaults:
  "NewRedisSessionStore net config = (Some store, None) \<Longrightarrow>
   opt_Addr (options (client store)) = (if Addr config = [] then ''localhost:6379'' else Addr config) \<and>
   prefix store = (if Prefix config = [] then ''mcp:session:'' else Prefix config) \<and>
   ttl store = (if TTL config = 0 then 3600000000000 else TTL config)"
  by (cases "fault (net (dialled config))")
     (auto simp add: NewRedisSessionStore_probe_fails NewRedisSessionStore_probe_ok dialled_def Hour_def
        split: option.splits)

theorem construction_defaults_witness:
  "NewRedisSessionStore net_up config_custom = (Some custom_store, None) \<and>
   opt_Addr (options (client custom_store)) = ''redis:6380'' \<and>
   prefix custom_store = ''s:'' \<and> ttl custom_store = 5 \<and>
   NewRedisSessionStore net_up (config_zero\<lparr>Server := Some idle_server\<rparr>) = (Some empty_store, None) \<and>
   opt_Addr (options (client empty_store)) = ''localhost:6379'' \<and>
   prefix empty_store = ''mcp:session:'' \<and> ttl empty_store = 3600000000000"
proof -
  have a: "NewRedisSessionStore net_up config_custom = (Some custom_store, None)"
    by (simp add: NewRedisSessionStore_probe_ok net_up_def config_custom_def custom_store_def dialled_def)
  have b: "NewRedisSessionStore net_up (config_zero\<lparr>Server := Some idle_server\<rparr>) = (Some empty_store, None)"
    by (simp add: NewRedisSessionStore_probe_ok net_up_def config_zero_def empty_store_def dialled_def)
  show ?thesis
    using a b construction_defaults [OF a] construction_defaults [OF b]
    by (simp add: config_custom_def config_zero_def)
qed

subsection \<open>C10: the probe comes before the check of the owner\<close>

text \<open>
  C10: for a configuration with a \<^verbatim>\<open>nil\<close> owner and a Redis server that does not answer
  the probe, construction fails with the connection error; and whenever construction
  reports the configuration error for the missing owner, the probe had succeeded.
\<close>

theorem probe_precedes_owner_check:
  "(Server config = None \<and> fault (net (dialled config)) = Some e \<longrightarrow>
      NewRedisSessionStore net config = (None, Some (Errorf_w ''failed to connect to Redis'' e))) \<and>
   (snd (NewRedisSessionStore net config) = Some (Errorf ''MCP server reference is required'') \<longrightarrow>
      fault (net (dialled config)) = None)"
  by (cases "fault (net (dialled config))")
     (auto simp add: NewRedisSessionStore_probe_fails NewRedisSessionStore_probe_ok
        split: option.splits)

theorem probe_precedes_owner_check_witness:
  "Server config_zero = None \<and>
   fault (net_down (dialled config_zero)) = Some (Failure ''dial tcp: connection refused'') \<and>
   NewRedisSessionStore net_down config_zero =
     (None :: unit RedisSessionStore option,
      Some (Errorf_w ''failed to connect to Redis'' (Failure ''dial tcp: connection refused''))) \<and>
   snd (NewRedisSessionStore net_up config_zero :: unit RedisSessionStore option \<times> error option)
     = Some (Errorf ''MCP server reference is required'') \<and>
   fault (net_up (dialled config_zero)) = None"
proof -
  have a: "Server config_zero = None" by (simp add: config_zero_def)
  have b: "fault (net_down (dialled config_zero)) = Some (Failure ''dial tcp: connection refused'')"
    by (simp add: net_down_def)
  have c: "snd (NewRedisSessionStore net_up config_zero :: unit RedisSessionStore option \<times> error option)
             = Some (Errorf ''MCP server reference is required'')"
    by (simp add: NewRedisSessionStore_probe_ok net_up_def config_zero_def)
  have d: "(Server config_zero = None \<and>
            fault (net_down (dialled config_zero)) = Some (Failure ''dial tcp: connection refused'') \<longrightarrow>
            NewRedisSessionStore net_down config_zero =
              (None :: unit RedisSessionStore option,
               Some (Errorf_w ''failed to connect to Redis'' (Failure ''dial tcp: connection refused''))))"
    using probe_precedes_owner_check [of config_zero net_down "Failure ''dial tcp: connection refused''"]
    by blast
  have e: "snd (NewRedisSessionStore net_up config_zero :: unit RedisSessionStore option \<times> error option)
             = Some (Errorf ''MCP server reference is required'') \<longrightarrow>
           fault (net_up (dialled config_zero)) = None"
    using probe_precedes_owner_check [of config_zero net_up] by blast
  show ?thesis using a b c d e by blast
qed

end
